theory Spec2Isabelle
  imports Main
begin

section \<open>Strings and formatting\<close>

text \<open>
  A Go string is a sequence of bytes, so it is a \<^typ>\<open>string\<close> here: \<^const>\<open>length\<close> is
  Go's \<^verbatim>\<open>len\<close>. Go's \<^verbatim>\<open>int\<close> is modelled by \<^typ>\<open>int\<close>: the only arithmetic
  the code does on it is counting results and dividing a buffer size by a positive
  constant, far from the 64-bit range.
\<close>

definition digit :: "nat \<Rightarrow> char" where
  "digit n = ''0123456789'' ! (n mod 10)"

text \<open>The decimal digits of a natural number, as \<^verbatim>\<open>%d\<close> prints them.\<close>

fun showNat :: "nat \<Rightarrow> string" where
  "showNat n = (if n < 10 then [digit n] else showNat (n div 10) @ [digit n])"

declare showNat.simps [simp del]

definition showInt :: "int \<Rightarrow> string" where
  "showInt i = (if i < 0 then CHR ''-'' # showNat (nat (- i)) else showNat (nat i))"

text \<open>\<^verbatim>\<open>strings.HasPrefix\<close> and \<^verbatim>\<open>strings.Contains\<close>.\<close>

fun HasPrefix :: "string \<Rightarrow> string \<Rightarrow> bool" where
  "HasPrefix s [] = True"
| "HasPrefix [] (p # ps) = False"
| "HasPrefix (c # cs) (p # ps) = (c = p \<and> HasPrefix cs ps)"

fun Contains :: "string \<Rightarrow> string \<Rightarrow> bool" where
  "Contains [] sub = (sub = [])"
| "Contains (c # cs) sub = (HasPrefix (c # cs) sub \<or> Contains cs sub)"

text \<open>
  \<^verbatim>\<open>strings.ToLower\<close> on the bytes of the string: the letters \<^verbatim>\<open>A\<close> to \<^verbatim>\<open>Z\<close> move
  to \<^verbatim>\<open>a\<close> to \<^verbatim>\<open>z\<close>, every other byte stays. On a string with a byte beyond ASCII Go
  lowers whole runes instead; no rune beyond ASCII is lowered to one of the letters of
  \<^verbatim>\<open>password\<close>, \<^verbatim>\<open>userpass\<close>, \<^verbatim>\<open>http\<close> or \<^verbatim>\<open>https\<close> (only U+0130 and U+212A
  are lowered into ASCII, to \<^verbatim>\<open>i\<close> and \<^verbatim>\<open>k\<close>), so the comparisons made on the result
  below come out the same.
\<close>

definition toLowerByte :: "char \<Rightarrow> char" where
  "toLowerByte c =
     (let n = (of_char c :: nat) in if 65 \<le> n \<and> n \<le> 90 then char_of (n + 32) else c)"

definition ToLower :: "string \<Rightarrow> string" where
  "ToLower s = map toLowerByte s"


section \<open>The buffer tuner (docs/libya\_tuning.md, tuneUDPBuffer)\<close>

definition libyalinkDesiredReadBuffer :: int where
  "libyalinkDesiredReadBuffer = 8 * 1024 * 1024"

definition libyalinkDesiredWriteBuffer :: int where
  "libyalinkDesiredWriteBuffer = 8 * 1024 * 1024"

text \<open>
  \<^verbatim>\<open>formatBytes\<close>. Go's integer division truncates towards zero; it is only reached
  with \<open>b\<close> at least \<open>kb\<close>, where it agrees with \<^const>\<open>divide\<close> on \<^typ>\<open>int\<close>.
\<close>

definition formatBytes :: "int \<Rightarrow> string" where
  "formatBytes b =
     (let kb = 1024; mb = 1024 * kb in
      if b \<ge> mb then showInt (b div mb) @ ''MB''
      else if b \<ge> kb then showInt (b div kb) @ ''KB''
      else showInt b @ ''B'')"

text \<open>
  What the tuner sees of a \<^verbatim>\<open>*net.UDPConn\<close>: the error of each set-buffer call
  (\<open>None\<close> is \<^verbatim>\<open>nil\<close>), whether \<^verbatim>\<open>SyscallConn\<close> fails, and what the platform's
  \<^verbatim>\<open>getsockopt\<close> reports for each direction after the set call, the error text on
  the left when it fails.
\<close>

record UDPConn =
  SetReadBufferErr :: "string option"
  SetWriteBufferErr :: "string option"
  SyscallConnErr :: "string option"
  GetsockoptRcvBuf :: "string + int"
  GetsockoptSndBuf :: "string + int"

text \<open>The platform accessors (buffers\_unix.go and its Windows sibling): 0 on an error.\<close>

definition getSockOptRcvBuf :: "UDPConn \<Rightarrow> int" where
  "getSockOptRcvBuf conn = (case GetsockoptRcvBuf conn of Inl err \<Rightarrow> 0 | Inr val \<Rightarrow> val)"

definition getSockOptSndBuf :: "UDPConn \<Rightarrow> int" where
  "getSockOptSndBuf conn = (case GetsockoptSndBuf conn of Inl err \<Rightarrow> 0 | Inr val \<Rightarrow> val)"

definition getUDPReadBufferSize :: "UDPConn \<Rightarrow> int" where
  "getUDPReadBufferSize conn =
     (case SyscallConnErr conn of Some err \<Rightarrow> 0 | None \<Rightarrow> getSockOptRcvBuf conn)"

definition getUDPWriteBufferSize :: "UDPConn \<Rightarrow> int" where
  "getUDPWriteBufferSize conn =
     (case SyscallConnErr conn of Some err \<Rightarrow> 0 | None \<Rightarrow> getSockOptSndBuf conn)"

text \<open>
  A line written to the \<^verbatim>\<open>zap\<close> logger: its level, its message and its structured
  fields (\<^verbatim>\<open>zap.Int\<close> with key and value, \<^verbatim>\<open>zap.Error\<close> with the error's text).
\<close>

datatype Level = InfoLevel | WarnLevel

datatype Field = IntField string int | ErrorField string

record Entry =
  level :: Level
  msg :: string
  zfields :: "Field list"

text \<open>The calls the tuner makes on the connection, in order.\<close>

datatype SockCall =
  SetReadBuffer int | GetReadBufferSize | SetWriteBuffer int | GetWriteBufferSize

text \<open>The block of \<^verbatim>\<open>tuneUDPBuffer\<close> under \<^verbatim>\<open>--- Read Buffer ---\<close>.\<close>

definition tuneReadBuffer :: "UDPConn \<Rightarrow> SockCall list \<times> Entry" where
  "tuneReadBuffer conn =
     (case SetReadBufferErr conn of
        Some err \<Rightarrow>
          ([SetReadBuffer libyalinkDesiredReadBuffer],
           \<lparr>level = WarnLevel,
            msg = ''[LibyaLink] Failed to set UDP read buffer'',
            zfields = [IntField ''requested_bytes'' libyalinkDesiredReadBuffer, ErrorField err]\<rparr>)
      | None \<Rightarrow>
          (let granted = getUDPReadBufferSize conn in
           ([SetReadBuffer libyalinkDesiredReadBuffer, GetReadBufferSize],
            if granted < libyalinkDesiredReadBuffer then
              \<lparr>level = WarnLevel,
               msg = ''[LibyaLink] Requested '' @ formatBytes libyalinkDesiredReadBuffer
                 @ '' read buffer -> OS granted '' @ formatBytes granted @ ''. ''
                 @ ''Warning: Run the tuning script to unlock full speed. See docs/libya_tuning.md'',
               zfields = [IntField ''requested_bytes'' libyalinkDesiredReadBuffer,
                         IntField ''granted_bytes'' granted]\<rparr>
            else
              \<lparr>level = InfoLevel,
               msg = ''[LibyaLink] UDP read buffer: requested ''
                 @ formatBytes libyalinkDesiredReadBuffer
                 @ '' -> granted '' @ formatBytes granted @ ''. Optimal!'',
               zfields = [IntField ''granted_bytes'' granted]\<rparr>)))"

text \<open>The block under \<^verbatim>\<open>--- Write Buffer ---\<close>.\<close>

definition tuneWriteBuffer :: "UDPConn \<Rightarrow> SockCall list \<times> Entry" where
  "tuneWriteBuffer conn =
     (case SetWriteBufferErr conn of
        Some err \<Rightarrow>
          ([SetWriteBuffer libyalinkDesiredWriteBuffer],
           \<lparr>level = WarnLevel,
            msg = ''[LibyaLink] Failed to set UDP write buffer'',
            zfields = [IntField ''requested_bytes'' libyalinkDesiredWriteBuffer, ErrorField err]\<rparr>)
      | None \<Rightarrow>
          (let granted = getUDPWriteBufferSize conn in
           ([SetWriteBuffer libyalinkDesiredWriteBuffer, GetWriteBufferSize],
            if granted < libyalinkDesiredWriteBuffer then
              \<lparr>level = WarnLevel,
               msg = ''[LibyaLink] Requested '' @ formatBytes libyalinkDesiredWriteBuffer
                 @ '' write buffer -> OS granted '' @ formatBytes granted @ ''. ''
                 @ ''Warning: Run the tuning script to unlock full speed. See docs/libya_tuning.md'',
               zfields = [IntField ''requested_bytes'' libyalinkDesiredWriteBuffer,
                         IntField ''granted_bytes'' granted]\<rparr>
            else
              \<lparr>level = InfoLevel,
               msg = ''[LibyaLink] UDP write buffer: requested ''
                 @ formatBytes libyalinkDesiredWriteBuffer
                 @ '' -> granted '' @ formatBytes granted @ ''. Optimal!'',
               zfields = [IntField ''granted_bytes'' granted]\<rparr>)))"

text \<open>
  \<^verbatim>\<open>tuneUDPBuffer\<close>. Both arguments are pointers: \<open>None\<close> is \<^verbatim>\<open>nil\<close>. The logger is
  the list of the lines written to it so far. The result is the calls made on the
  connection and the logger afterwards.
\<close>

definition tuneUDPBuffer ::
  "UDPConn option \<Rightarrow> Entry list option \<Rightarrow> SockCall list \<times> Entry list option" where
  "tuneUDPBuffer conn log =
     (case (conn, log) of
        (Some c, Some written) \<Rightarrow>
          (let start = \<lparr>level = InfoLevel,
                        msg = ''[LibyaLink] Tuning UDP socket buffers for Libyan network conditions...'',
                        zfields = []\<rparr>;
               (rcalls, rline) = tuneReadBuffer c;
               (wcalls, wline) = tuneWriteBuffer c
           in (rcalls @ wcalls, Some (written @ [start, rline, wline])))
      | _ \<Rightarrow> ([], log))"


section \<open>The doctor (app/cmd/doctor.go)\<close>

subsection \<open>Results and the environment\<close>

text \<open>The three status glyphs, as the UTF-8 bytes of the source's string constants.\<close>

definition checkOK :: string where
  "checkOK = [CHR 0xE2, CHR 0x9C, CHR 0x85]"

definition checkFail :: string where
  "checkFail = [CHR 0xE2, CHR 0x9D, CHR 0x8C]"

definition checkWarn :: string where
  "checkWarn = [CHR 0xE2, CHR 0x9A, CHR 0xA0, CHR 0xEF, CHR 0xB8, CHR 0x8F]"

record checkResult =
  Name :: string
  Status :: string
  Message :: string

text \<open>
  The configuration source (the process-wide \<^verbatim>\<open>viper\<close> object) as the checks read it:
  the path of the configuration file in use (empty when there is none), and the typed
  lookups. A Go \<^verbatim>\<open>map[string]string\<close> is held as an association list, and
  \<^verbatim>\<open>len\<close> of it counts its distinct keys.
\<close>

record Viper =
  ConfigFileUsed :: string
  IsSet :: "string \<Rightarrow> bool"
  GetString :: "string \<Rightarrow> string"
  GetStringMapString :: "string \<Rightarrow> (string \<times> string) list"

definition lenMap :: "(string \<times> string) list \<Rightarrow> int" where
  "lenMap m = int (length (remdups (map fst m)))"

text \<open>
  An error of a file operation: its kind, as \<^verbatim>\<open>os.IsNotExist\<close> and
  \<^verbatim>\<open>os.IsPermission\<close> tell it, and its text.
\<close>

datatype PathError = NotExist string | Permission string | OtherError string

text \<open>
  The operating system as the checks call it. Every call returns its error as a value
  (\<open>None\<close> or \<open>Inr\<close> when the Go error is \<^verbatim>\<open>nil\<close>): \<^verbatim>\<open>viper.ReadInConfig\<close>,
  \<^verbatim>\<open>os.Stat\<close> (the file's size on success), \<^verbatim>\<open>os.Open\<close>, \<^verbatim>\<open>os.ReadFile\<close>,
  \<^verbatim>\<open>tls.LoadX509KeyPair\<close>, \<^verbatim>\<open>net.ResolveUDPAddr\<close> (the endpoint on success), the
  kernel's rule for when an endpoint that is held keeps another from being bound
  (the same port on the same address, or on a wildcard address), and the reason,
  other than the address being taken, for which a bind would be refused.
  The \<^typ>\<open>Viper\<close> that the checks read is the configuration source as
  \<^verbatim>\<open>ReadInConfig\<close> leaves it.
\<close>

record OS =
  ReadInConfig :: "string option"
  Stat :: "string \<Rightarrow> PathError + int"
  Open :: "string \<Rightarrow> string option"
  ReadFile :: "string \<Rightarrow> string + string"
  LoadX509KeyPair :: "string \<Rightarrow> string \<Rightarrow> string option"
  ResolveUDPAddr :: "string \<Rightarrow> string + string"
  Conflicts :: "string \<Rightarrow> string \<Rightarrow> bool"
  BindRefused :: "string \<Rightarrow> string option"
  GOOS :: string

text \<open>
  The one resource a check acquires is a bound UDP socket. The state of the network is
  the list of the sockets that are bound, each named by its endpoint:
  \<^verbatim>\<open>net.ListenUDP\<close> fails on an endpoint with which a held one conflicts, and on one
  the system refuses; otherwise it binds a socket and returns the connection.
  \<^verbatim>\<open>Close\<close> releases that one socket.
\<close>

definition ListenUDP ::
  "OS \<Rightarrow> string list \<Rightarrow> string \<Rightarrow> (string + string) \<times> string list" where
  "ListenUDP os bound udpAddr =
     (if list_ex (\<lambda>held. Conflicts os held udpAddr) bound then
        (Inl (''listen udp '' @ udpAddr @ '': bind: address already in use''), bound)
      else case BindRefused os udpAddr of
        Some err \<Rightarrow> (Inl err, bound)
      | None \<Rightarrow> (Inr udpAddr, udpAddr # bound))"

definition Close :: "string \<Rightarrow> string list \<Rightarrow> string list" where
  "Close conn bound = remove1 conn bound"

subsection \<open>The checks\<close>

definition checkConfigReadable :: "OS \<Rightarrow> Viper \<Rightarrow> checkResult list" where
  "checkConfigReadable os v =
     (case ReadInConfig os of
        Some err \<Rightarrow>
          [\<lparr>Name = ''Config File'', Status = checkFail,
            Message = ''Cannot read config file: '' @ err\<rparr>]
      | None \<Rightarrow>
          [\<lparr>Name = ''Config File'', Status = checkOK,
            Message = ''Config loaded from: '' @ ConfigFileUsed v\<rparr>])"

definition checkTLSACMEConflict :: "Viper \<Rightarrow> checkResult list" where
  "checkTLSACMEConflict v =
     (if ConfigFileUsed v = [] then []
      else
        (let hasTLS = IsSet v ''tls''; hasACME = IsSet v ''acme'' in
         if hasTLS \<and> hasACME then
           [\<lparr>Name = ''TLS/ACME'', Status = checkFail,
             Message = ''Both 'tls' and 'acme' are set. You must use one or the other, not both.''\<rparr>]
         else if \<not> hasTLS \<and> \<not> hasACME then
           [\<lparr>Name = ''TLS/ACME'', Status = checkFail,
             Message = ''Neither 'tls' nor 'acme' is configured. One is required for the server to start.''\<rparr>]
         else if hasTLS then
           [\<lparr>Name = ''TLS/ACME'', Status = checkOK,
             Message = ''TLS mode: using local certificate files.''\<rparr>]
         else
           [\<lparr>Name = ''TLS/ACME'', Status = checkOK,
             Message = ''ACME mode: using automatic certificate provisioning.''\<rparr>]))"

definition checkFileReadable :: "OS \<Rightarrow> string \<Rightarrow> string \<Rightarrow> checkResult" where
  "checkFileReadable os name path =
     (case Stat os path of
        Inl (NotExist err) \<Rightarrow>
          \<lparr>Name = name, Status = checkFail, Message = ''File not found: '' @ path\<rparr>
      | Inl (Permission err) \<Rightarrow>
          \<lparr>Name = name, Status = checkFail, Message = ''Permission denied on '' @ path\<rparr>
      | Inl (OtherError err) \<Rightarrow>
          \<lparr>Name = name, Status = checkFail,
           Message = ''Error accessing '' @ path @ '': '' @ err\<rparr>
      | Inr infoSize \<Rightarrow>
          (case Open os path of
             Some err \<Rightarrow>
               \<lparr>Name = name, Status = checkFail,
                Message = ''Cannot open '' @ path @ '': '' @ err\<rparr>
           | None \<Rightarrow>
               if infoSize = 0 then
                 \<lparr>Name = name, Status = checkFail, Message = ''File is empty: '' @ path\<rparr>
               else
                 \<lparr>Name = name, Status = checkOK,
                  Message = ''Readable ('' @ showInt infoSize @ '' bytes): '' @ path\<rparr>))"

definition checkTLSFiles :: "OS \<Rightarrow> Viper \<Rightarrow> checkResult list" where
  "checkTLSFiles os v =
     (if \<not> IsSet v ''tls'' then []
      else
        (let certPath = GetString v ''tls.cert'';
             keyPath = GetString v ''tls.key'';
             results = [];
             results = results @
               (if certPath = [] then
                  [\<lparr>Name = ''TLS Cert'', Status = checkFail,
                    Message = ''tls.cert path is empty.''\<rparr>]
                else [checkFileReadable os ''TLS Cert'' certPath]);
             results = results @
               (if keyPath = [] then
                  [\<lparr>Name = ''TLS Key'', Status = checkFail,
                    Message = ''tls.key path is empty.''\<rparr>]
                else [checkFileReadable os ''TLS Key'' keyPath]);
             results = results @
               (if certPath \<noteq> [] \<and> keyPath \<noteq> [] then
                  (case LoadX509KeyPair os certPath keyPath of
                     Some err \<Rightarrow>
                       [\<lparr>Name = ''TLS Pair'', Status = checkFail,
                         Message = ''Certificate/Key pair is invalid: '' @ err\<rparr>]
                   | None \<Rightarrow>
                       [\<lparr>Name = ''TLS Pair'', Status = checkOK,
                         Message = ''Certificate and key pair loaded successfully.''\<rparr>])
                else [])
         in results))"

text \<open>
  \<^verbatim>\<open>defaultListenAddr\<close> is a constant of the package declared outside this file; it is
  an argument here. The check returns its results and the state of the network it
  leaves behind.
\<close>

definition checkPortAvailability ::
  "string \<Rightarrow> OS \<Rightarrow> Viper \<Rightarrow> string list \<Rightarrow> checkResult list \<times> string list" where
  "checkPortAvailability defaultListenAddr os v bound =
     (let listenAddr = GetString v ''listen'';
          listenAddr = (if listenAddr = [] then defaultListenAddr else listenAddr)
      in case ResolveUDPAddr os listenAddr of
        Inl err \<Rightarrow>
          ([\<lparr>Name = ''UDP Port'', Status = checkFail,
             Message = ''Invalid listen address '' @ [CHR 0x27] @ listenAddr @ [CHR 0x27]
               @ '': '' @ err\<rparr>], bound)
      | Inr udpAddr \<Rightarrow>
          (case ListenUDP os bound udpAddr of
             (Inl errStr, bound') \<Rightarrow>
               (if Contains errStr ''address already in use'' \<or>
                   Contains errStr ''Only one usage of each socket address'' then
                  [\<lparr>Name = ''UDP Port'', Status = checkFail,
                    Message = ''Port '' @ listenAddr
                      @ '' is already in use! Another process (Apache/Nginx/Hysteria?) is binding it.''\<rparr>]
                else if Contains errStr ''permission denied'' \<or>
                   Contains errStr ''bind: permission denied'' then
                  [\<lparr>Name = ''UDP Port'', Status = checkFail,
                    Message = ''Permission denied binding to '' @ listenAddr
                      @ ''. Use a port > 1024 or run with elevated privileges.''\<rparr>]
                else
                  [\<lparr>Name = ''UDP Port'', Status = checkFail,
                    Message = ''Cannot bind UDP '' @ listenAddr @ '': '' @ errStr\<rparr>],
                bound')
           | (Inr conn, bound') \<Rightarrow>
               ([\<lparr>Name = ''UDP Port'', Status = checkOK,
                  Message = ''UDP '' @ listenAddr @ '' is available.''\<rparr>],
                Close conn bound')))"


text \<open>
  White space, as \<^verbatim>\<open>unicode.IsSpace\<close> and the scanner of \<^verbatim>\<open>fmt\<close> have it: the six
  characters of ASCII and the UTF-8 encodings of U+0085, U+00A0, U+1680, U+2000 to
  U+200A, U+2028, U+2029, U+202F, U+205F and U+3000.
\<close>

definition whiteSpace :: "string list" where
  "whiteSpace =
     [[CHR 0x09], [CHR 0x0A], [CHR 0x0B], [CHR 0x0C], [CHR 0x0D], [CHR 0x20],
      [CHR 0xC2, CHR 0x85], [CHR 0xC2, CHR 0xA0], [CHR 0xE1, CHR 0x9A, CHR 0x80],
      [CHR 0xE2, CHR 0x80, CHR 0x80], [CHR 0xE2, CHR 0x80, CHR 0x81],
      [CHR 0xE2, CHR 0x80, CHR 0x82], [CHR 0xE2, CHR 0x80, CHR 0x83],
      [CHR 0xE2, CHR 0x80, CHR 0x84], [CHR 0xE2, CHR 0x80, CHR 0x85],
      [CHR 0xE2, CHR 0x80, CHR 0x86], [CHR 0xE2, CHR 0x80, CHR 0x87],
      [CHR 0xE2, CHR 0x80, CHR 0x88], [CHR 0xE2, CHR 0x80, CHR 0x89],
      [CHR 0xE2, CHR 0x80, CHR 0x8A], [CHR 0xE2, CHR 0x80, CHR 0xA8],
      [CHR 0xE2, CHR 0x80, CHR 0xA9], [CHR 0xE2, CHR 0x80, CHR 0xAF],
      [CHR 0xE2, CHR 0x81, CHR 0x9F], [CHR 0xE3, CHR 0x80, CHR 0x80]]"

text \<open>
  The length of the first of the given words that the string starts with, 0 when it
  starts with none; and the string without its leading occurrences of these words.
\<close>

fun leading :: "string list \<Rightarrow> string \<Rightarrow> nat" where
  "leading [] s = 0"
| "leading (w # ws) s = (if w \<noteq> [] \<and> HasPrefix s w then length w else leading ws s)"

function dropLeading :: "string list \<Rightarrow> string \<Rightarrow> string" where
  "dropLeading ws s = (if leading ws s = 0 then s else dropLeading ws (drop (leading ws s) s))"
  by pat_completeness auto
termination
proof (relation "measure (\<lambda>(ws, s). length s)")
  show "wf (measure (\<lambda>(ws, s). length s))"
    by simp
next
  fix ws :: "string list" and s :: string
  assume some: "leading ws s \<noteq> 0"
  have "leading ws' [] = 0" for ws'
    by (induction ws') (auto simp add: neq_Nil_conv)
  with some have "s \<noteq> []"
    by auto
  with some show "((ws, drop (leading ws s) s), (ws, s)) \<in> measure (\<lambda>(ws, s). length s)"
    by simp
qed

declare dropLeading.simps [simp del]

text \<open>
  \<^verbatim>\<open>strings.TrimSpace\<close>: the white space at both ends goes; at the end a character is
  found by its encoding read backwards.
\<close>

definition TrimSpace :: "string \<Rightarrow> string" where
  "TrimSpace s = rev (dropLeading (map rev whiteSpace) (rev (dropLeading whiteSpace s)))"

text \<open>
  The value that \<^verbatim>\<open>fmt.Sscanf(valStr, "%d", &val)\<close> leaves in \<^verbatim>\<open>val\<close>, which starts
  at 0; the call's error is dropped by the source. The scanner skips white space but
  stops with an error at a newline, takes one optional sign, then the longest run of
  decimal digits, and hands the token to \<^verbatim>\<open>strconv.ParseInt\<close> in base 10 and 64
  bits, which refuses a value out of range. On any error \<^verbatim>\<open>val\<close> keeps its 0.
\<close>

definition isDigit :: "char \<Rightarrow> bool" where
  "isDigit c = (48 \<le> (of_char c :: nat) \<and> (of_char c :: nat) \<le> 57)"

definition decimal :: "string \<Rightarrow> int" where
  "decimal ds = foldl (\<lambda>a c. 10 * a + (of_char c - 48)) 0 ds"

definition Sscanf_d :: "string \<Rightarrow> int" where
  "Sscanf_d str =
     (let s1 = dropLeading (remove1 [CHR 0x0A] whiteSpace) str in
      if s1 = [] \<or> hd s1 = CHR 0x0A then 0
      else
        (let neg = (hd s1 = CHR ''-'');
             s2 = (if hd s1 = CHR ''-'' \<or> hd s1 = CHR ''+'' then tl s1 else s1);
             tok = takeWhile isDigit s2
         in if tok = [] then 0
            else
              (let i = (if neg then - decimal tok else decimal tok)
               in if i < - (2 ^ 63) \<or> 2 ^ 63 \<le> i then 0 else i)))"

definition checkBufferValue :: "string \<Rightarrow> string \<Rightarrow> int \<Rightarrow> checkResult" where
  "checkBufferValue name valStr recommended =
     (let val = Sscanf_d valStr in
      if val \<ge> recommended then
        \<lparr>Name = name, Status = checkOK,
         Message = showInt val @ '' bytes (>= '' @ showInt recommended @ '' recommended). Good!''\<rparr>
      else
        \<lparr>Name = name, Status = checkWarn,
         Message = showInt val @ '' bytes (< '' @ showInt recommended
           @ '' recommended). Run the tuning script for full speed. See docs/libya_tuning.md''\<rparr>)"

definition checkUDPBuffers :: "OS \<Rightarrow> checkResult list" where
  "checkUDPBuffers os =
     (if GOOS os \<noteq> ''linux'' then
        [\<lparr>Name = ''UDP Buffers'', Status = checkWarn,
          Message = ''Buffer check only runs on Linux (current OS: '' @ GOOS os
            @ ''). See docs/libya_tuning.md''\<rparr>]
      else
        (let results = [];
             results = results @
               (case ReadFile os ''/proc/sys/net/core/rmem_max'' of
                  Inr rmem \<Rightarrow> [checkBufferValue ''UDP rmem_max'' (TrimSpace rmem) 8388608]
                | Inl err \<Rightarrow> []);
             results = results @
               (case ReadFile os ''/proc/sys/net/core/wmem_max'' of
                  Inr wmem \<Rightarrow> [checkBufferValue ''UDP wmem_max'' (TrimSpace wmem) 8388608]
                | Inl err \<Rightarrow> []);
             results = results @
               (if length results = 0 then
                  [\<lparr>Name = ''UDP Buffers'', Status = checkWarn,
                    Message = ''Could not read sysctl buffer values. Run 'sysctl net.core.rmem_max' manually.''\<rparr>]
                else [])
         in results))"

definition checkAuthConfig :: "Viper \<Rightarrow> checkResult list" where
  "checkAuthConfig v =
     (let authType = GetString v ''auth.type'' in
      if authType = [] then
        [\<lparr>Name = ''Auth'', Status = checkFail,
          Message = ''No auth.type configured. Server requires authentication.''\<rparr>]
      else if ToLower authType = ''password'' then
        (let pw = GetString v ''auth.password'' in
         if pw = [] then
           [\<lparr>Name = ''Auth'', Status = checkFail,
             Message = ''auth.type is 'password' but auth.password is empty.''\<rparr>]
         else if length pw < 8 then
           [\<lparr>Name = ''Auth'', Status = checkWarn,
             Message = ''auth.password is very short (< 8 chars). Consider using a stronger password.''\<rparr>]
         else
           [\<lparr>Name = ''Auth'', Status = checkOK,
             Message = ''Password authentication configured.''\<rparr>])
      else if ToLower authType = ''userpass'' then
        (let up = GetStringMapString v ''auth.userpass'' in
         if lenMap up = 0 then
           [\<lparr>Name = ''Auth'', Status = checkFail,
             Message = ''auth.type is 'userpass' but no user:password entries found.''\<rparr>]
         else
           [\<lparr>Name = ''Auth'', Status = checkOK,
             Message = ''User/pass authentication configured ('' @ showInt (lenMap up)
               @ '' users).''\<rparr>])
      else if ToLower authType = ''http'' \<or> ToLower authType = ''https'' then
        (let url = GetString v ''auth.http.url'' in
         if url = [] then
           [\<lparr>Name = ''Auth'', Status = checkFail,
             Message = ''auth.type is 'http' but auth.http.url is empty.''\<rparr>]
         else
           [\<lparr>Name = ''Auth'', Status = checkOK,
             Message = ''HTTP authentication configured: '' @ url\<rparr>])
      else
        [\<lparr>Name = ''Auth'', Status = checkOK,
          Message = ''Authentication type: '' @ authType\<rparr>])"

subsection \<open>The run and its report\<close>

text \<open>
  How a command handler ends: it returns to its caller, or it stops the process with
  \<^verbatim>\<open>os.Exit\<close> and a status. Only the second can make the process signal failure.
\<close>

datatype Ending = Returned | Exited int

fun signalsFailure :: "Ending \<Rightarrow> bool" where
  "signalsFailure Returned = False"
| "signalsFailure (Exited code) = (code \<noteq> 0)"

text \<open>
  The loop of \<^verbatim>\<open>runDoctor\<close> over the results: it prints one line for each result and
  counts the failures and the warnings. The accumulator is the lines printed so far,
  \<^verbatim>\<open>failCount\<close> and \<^verbatim>\<open>warnCount\<close>.
\<close>

definition resultLine :: "checkResult \<Rightarrow> string" where
  "resultLine r = ''  '' @ Status r @ ''  ['' @ Name r @ ''] '' @ Message r"

fun countResults ::
  "checkResult list \<Rightarrow> string list \<times> int \<times> int \<Rightarrow> string list \<times> int \<times> int" where
  "countResults [] acc = acc"
| "countResults (r # rs) (out, failCount, warnCount) =
     countResults rs
       (out @ [resultLine r],
        (if Status r = checkFail then failCount + 1 else failCount),
        (if Status r = checkWarn then warnCount + 1 else warnCount))"

text \<open>The verdict line chosen after the loop.\<close>

definition verdictLine :: "int \<Rightarrow> int \<Rightarrow> string" where
  "verdictLine failCount warnCount =
     (if failCount = 0 \<and> warnCount = 0 then
        ''  '' @ checkOK @ '' System Healthy '' @ [CHR 0xE2, CHR 0x80, CHR 0x94]
          @ '' All checks passed!''
      else if failCount = 0 then
        ''  '' @ checkWarn @ '' System OK with '' @ showInt warnCount @ '' warning(s)''
      else
        ''  '' @ checkFail @ '' '' @ showInt failCount @ '' error(s), '' @ showInt warnCount
          @ '' warning(s) found. Fix the issues above.'')"

text \<open>
  The banner and the two rules, whose box-drawing characters are three bytes each.
\<close>

definition box :: "char \<Rightarrow> nat \<Rightarrow> string" where
  "box c n = concat (replicate n [CHR 0xE2, CHR 0x95, c])"

definition banner :: "string list" where
  "banner =
     [[],
      box (CHR 0x94) 1 @ box (CHR 0x90) 54 @ box (CHR 0x97) 1,
      box (CHR 0x91) 1 @ ''          LibyaLink Doctor '' @ [CHR 0xE2, CHR 0x80, CHR 0x94]
        @ '' System Diagnostic       '' @ box (CHR 0x91) 1,
      box (CHR 0x91) 1 @ ''          Powered by Hysteria 2                      ''
        @ box (CHR 0x91) 1,
      box (CHR 0x9A) 1 @ box (CHR 0x90) 54 @ box (CHR 0x9D) 1,
      []]"

definition hrule :: "nat \<Rightarrow> string" where
  "hrule n = concat (replicate n [CHR 0xE2, CHR 0x94, CHR 0x80])"

text \<open>
  One run of the command: the results collected from the six checks in order, the
  lines printed, the two counts, the state of the network afterwards and the way the
  handler ends. \<^verbatim>\<open>runDoctor\<close> has no result and no call of \<^verbatim>\<open>os.Exit\<close>: after the
  last line it returns. \<open>report\<close> is the second half of \<^verbatim>\<open>runDoctor\<close>, from the
  heading of the results to the verdict; the banner is printed before the checks run.
\<close>

record Run =
  collected :: "checkResult list"
  printed :: "string list"
  failCount :: int
  warnCount :: int
  boundAfter :: "string list"
  ending :: Ending

definition report :: "checkResult list \<Rightarrow> string list \<Rightarrow> Run" where
  "report rs bound =
     (case countResults rs (banner @ [hrule 3 @ '' Diagnostic Results '' @ hrule 3, []], 0, 0) of
        (out, fc, wc) \<Rightarrow>
          \<lparr>collected = rs,
           printed = out @ [[], hrule 26, verdictLine fc wc, []],
           failCount = fc,
           warnCount = wc,
           boundAfter = bound,
           ending = Returned\<rparr>)"

definition runDoctor :: "string \<Rightarrow> OS \<Rightarrow> Viper \<Rightarrow> string list \<Rightarrow> Run" where
  "runDoctor defaultListenAddr os v bound =
     (let results = [];
          results = results @ checkConfigReadable os v;
          results = results @ checkTLSACMEConflict v;
          results = results @ checkTLSFiles os v;
          (port, bound') = checkPortAvailability defaultListenAddr os v bound;
          results = results @ port;
          results = results @ checkUDPBuffers os;
          results = results @ checkAuthConfig v
      in report results bound')"


section \<open>Example inputs\<close>

text \<open>A run's results with one failure and two warnings.\<close>

definition exampleResults :: "checkResult list" where
  "exampleResults =
     [\<lparr>Name = ''Config File'', Status = checkOK, Message = ''Config loaded from: /etc/libyalink/config.yaml''\<rparr>,
      \<lparr>Name = ''UDP Port'', Status = checkFail, Message = ''Cannot bind UDP :443: boom''\<rparr>,
      \<lparr>Name = ''UDP rmem_max'', Status = checkWarn, Message = ''w1''\<rparr>,
      \<lparr>Name = ''UDP wmem_max'', Status = checkWarn, Message = ''w2''\<rparr>]"

text \<open>
  A configuration source into which nothing was loaded, and a system where reading the
  configuration fails, no file exists, every address resolves and may be bound, and
  an endpoint is taken only by itself.
\<close>

definition unloadedViper :: Viper where
  "unloadedViper =
     \<lparr>ConfigFileUsed = [], IsSet = (\<lambda>key. False), GetString = (\<lambda>key. []),
      GetStringMapString = (\<lambda>key. [])\<rparr>"

definition unloadedOS :: OS where
  "unloadedOS =
     \<lparr>ReadInConfig = Some ''Config File Not Found'',
      Stat = (\<lambda>path. Inl (NotExist ''no such file or directory'')),
      Open = (\<lambda>path. Some ''no such file or directory''),
      ReadFile = (\<lambda>path. Inr ''212992''),
      LoadX509KeyPair = (\<lambda>cert key. Some ''no such file or directory''),
      ResolveUDPAddr = (\<lambda>addr. Inr (''0.0.0.0'' @ addr)),
      Conflicts = (\<lambda>held addr. held = addr),
      BindRefused = (\<lambda>addr. None),
      GOOS = ''linux''\<rparr>"

text \<open>
  The same when the configuration file was named on the command line
  (\<^verbatim>\<open>doctor -c /etc/libyalink/config.yaml\<close>) and cannot be read: nothing is loaded,
  and the configuration source still reports the name it was given.
\<close>

definition namedFileViper :: Viper where
  "namedFileViper = unloadedViper\<lparr>ConfigFileUsed := ''/etc/libyalink/config.yaml''\<rparr>"

definition unreadableOS :: OS where
  "unreadableOS =
     unloadedOS\<lparr>ReadInConfig := Some ''open /etc/libyalink/config.yaml: permission denied''\<rparr>"

text \<open>A loaded configuration with an authentication type and a password.\<close>

definition authViper :: "string \<Rightarrow> string \<Rightarrow> Viper" where
  "authViper authType pw =
     \<lparr>ConfigFileUsed = ''/etc/libyalink/config.yaml'',
      IsSet = (\<lambda>key. key = ''auth''),
      GetString = (\<lambda>key. if key = ''auth.type'' then authType
                         else if key = ''auth.password'' then pw else []),
      GetStringMapString = (\<lambda>key. [])\<rparr>"

text \<open>
  The number of characters of a string of well-formed UTF-8: one for each byte that
  does not continue a character (a continuation byte is \<^verbatim>\<open>10xxxxxx\<close>). This is what
  the word \<^emph>\<open>characters\<close> counts, against \<^const>\<open>length\<close>, which counts bytes.
\<close>

definition characters :: "string \<Rightarrow> nat" where
  "characters s = length (filter (\<lambda>c. (of_char c :: nat) div 64 \<noteq> 2) s)"

text \<open>
  A password of four Arabic letters (U+0643, U+0644, U+0645, U+0629), two bytes each.
\<close>

definition arabicPassword :: string where
  "arabicPassword =
     [CHR 0xD9, CHR 0x83, CHR 0xD9, CHR 0x84, CHR 0xD9, CHR 0x85, CHR 0xD8, CHR 0xA9]"

text \<open>
  Static certificate mode with both paths set, on a system where the key file exists
  and the certificate file does not.
\<close>

definition tlsViper :: Viper where
  "tlsViper =
     \<lparr>ConfigFileUsed = ''/etc/libyalink/config.yaml'',
      IsSet = (\<lambda>key. key = ''tls''),
      GetString = (\<lambda>key. if key = ''tls.cert'' then ''/etc/libyalink/server.crt''
                         else if key = ''tls.key'' then ''/etc/libyalink/server.key'' else []),
      GetStringMapString = (\<lambda>key. [])\<rparr>"

definition missingCertOS :: OS where
  "missingCertOS =
     \<lparr>ReadInConfig = None,
      Stat = (\<lambda>path. if path = ''/etc/libyalink/server.key'' then Inr 1704
                      else Inl (NotExist (''stat '' @ path @ '': no such file or directory''))),
      Open = (\<lambda>path. if path = ''/etc/libyalink/server.key'' then None
                      else Some (''open '' @ path @ '': no such file or directory'')),
      ReadFile = (\<lambda>path. Inr ''212992''),
      LoadX509KeyPair = (\<lambda>cert key. Some (''open '' @ cert @ '': no such file or directory'')),
      ResolveUDPAddr = (\<lambda>addr. Inr (''0.0.0.0'' @ addr)),
      Conflicts = (\<lambda>held addr. held = addr),
      BindRefused = (\<lambda>addr. None),
      GOOS = ''linux''\<rparr>"

text \<open>
  A connection on which the system grants 212992 bytes for reading and refuses the
  write buffer, and one that is granted twice the request in both directions.
\<close>

definition shortfallConn :: UDPConn where
  "shortfallConn =
     \<lparr>SetReadBufferErr = None, SetWriteBufferErr = Some ''operation not permitted'',
      SyscallConnErr = None, GetsockoptRcvBuf = Inr 212992, GetsockoptSndBuf = Inr 16777216\<rparr>"

definition optimalConn :: UDPConn where
  "optimalConn =
     \<lparr>SetReadBufferErr = None, SetWriteBufferErr = None,
      SyscallConnErr = None, GetsockoptRcvBuf = Inr 16777216, GetsockoptSndBuf = Inr 16777216\<rparr>"


section \<open>The report\<close>

lemma countResults_eq:
  "countResults rs (out, fc, wc) =
     (out @ map resultLine rs,
      fc + int (length (filter (\<lambda>r. Status r = checkFail) rs)),
      wc + int (length (filter (\<lambda>r. Status r = checkWarn) rs)))"
  by (induction rs arbitrary: out fc wc) simp_all

lemma report_eq:
  "report rs bound =
     \<lparr>collected = rs,
      printed = banner @ [hrule 3 @ '' Diagnostic Results '' @ hrule 3, []] @ map resultLine rs
        @ [[], hrule 26,
           verdictLine (int (length (filter (\<lambda>r. Status r = checkFail) rs)))
             (int (length (filter (\<lambda>r. Status r = checkWarn) rs))), []],
      failCount = int (length (filter (\<lambda>r. Status r = checkFail) rs)),
      warnCount = int (length (filter (\<lambda>r. Status r = checkWarn) rs)),
      boundAfter = bound,
      ending = Returned\<rparr>"
  by (simp add: report_def countResults_eq)

lemma runDoctor_eq:
  "runDoctor d os v bound =
     report (checkConfigReadable os v @ checkTLSACMEConflict v @ checkTLSFiles os v
               @ fst (checkPortAvailability d os v bound) @ checkUDPBuffers os
               @ checkAuthConfig v)
            (snd (checkPortAvailability d os v bound))"
  by (simp add: runDoctor_def Let_def split: prod.splits)

text \<open>
  C2: for every sequence of results, the failure count and the warning count of the
  report are the numbers of results whose status is the failure glyph and the warning
  glyph, one line is printed for each result in order, and the verdict line is the
  all-clear line when both counts are zero, the line with the number of warnings when
  there is no failure and at least one warning, and the line with both counts when
  there is at least one failure.
\<close>

theorem report_counts_and_verdict:
  "collected (report rs bound) = rs \<and>
   failCount (report rs bound) = int (length (filter (\<lambda>r. Status r = checkFail) rs)) \<and>
   warnCount (report rs bound) = int (length (filter (\<lambda>r. Status r = checkWarn) rs)) \<and>
   printed (report rs bound) =
     banner @ [hrule 3 @ '' Diagnostic Results '' @ hrule 3, []] @ map resultLine rs
       @ [[], hrule 26, verdictLine (failCount (report rs bound)) (warnCount (report rs bound)), []] \<and>
   (failCount (report rs bound) = 0 \<and> warnCount (report rs bound) = 0 \<longrightarrow>
      verdictLine (failCount (report rs bound)) (warnCount (report rs bound)) =
        ''  '' @ checkOK @ '' System Healthy '' @ [CHR 0xE2, CHR 0x80, CHR 0x94]
          @ '' All checks passed!'') \<and>
   (failCount (report rs bound) = 0 \<and> 1 \<le> warnCount (report rs bound) \<longrightarrow>
      verdictLine (failCount (report rs bound)) (warnCount (report rs bound)) =
        ''  '' @ checkWarn @ '' System OK with '' @ showInt (warnCount (report rs bound))
          @ '' warning(s)'') \<and>
   (1 \<le> failCount (report rs bound) \<longrightarrow>
      verdictLine (failCount (report rs bound)) (warnCount (report rs bound)) =
        ''  '' @ checkFail @ '' '' @ showInt (failCount (report rs bound)) @ '' error(s), ''
          @ showInt (warnCount (report rs bound)) @ '' warning(s) found. Fix the issues above.'')"
  by (simp add: report_eq verdictLine_def)

theorem report_counts_and_verdict_witness:
  "failCount (report exampleResults []) = 1 \<and>
   warnCount (report exampleResults []) = 2 \<and>
   verdictLine (failCount (report exampleResults [])) (warnCount (report exampleResults [])) =
     ''  '' @ checkFail @ '' 1 error(s), 2 warning(s) found. Fix the issues above.'' \<and>
   failCount (report (tl (tl exampleResults)) []) = 0 \<and>
   warnCount (report (tl (tl exampleResults)) []) = 2 \<and>
   verdictLine (failCount (report (tl (tl exampleResults)) []))
       (warnCount (report (tl (tl exampleResults)) [])) =
     ''  '' @ checkWarn @ '' System OK with 2 warning(s)'' \<and>
   failCount (report [hd exampleResults] []) = 0 \<and>
   warnCount (report [hd exampleResults] []) = 0 \<and>
   verdictLine (failCount (report [hd exampleResults] [])) (warnCount (report [hd exampleResults] [])) =
     ''  '' @ checkOK @ '' System Healthy '' @ [CHR 0xE2, CHR 0x80, CHR 0x94] @ '' All checks passed!''"
proof -
  have s1: "showInt 1 = ''1''" and s2: "showInt 2 = ''2''"
    by (simp_all add: showInt_def showNat.simps digit_def)
  have n: "int (length (filter (\<lambda>r. Status r = checkFail) exampleResults)) = 1"
    "int (length (filter (\<lambda>r. Status r = checkWarn) exampleResults)) = 2"
    "int (length (filter (\<lambda>r. Status r = checkFail) (tl (tl exampleResults)))) = 0"
    "int (length (filter (\<lambda>r. Status r = checkWarn) (tl (tl exampleResults)))) = 2"
    "int (length (filter (\<lambda>r. Status r = checkFail) [hd exampleResults])) = 0"
    "int (length (filter (\<lambda>r. Status r = checkWarn) [hd exampleResults])) = 0"
    by (simp_all add: exampleResults_def checkOK_def checkFail_def checkWarn_def)
  note broken = report_counts_and_verdict [of exampleResults "[]"]
  note degraded = report_counts_and_verdict [of "tl (tl exampleResults)" "[]"]
  note healthy = report_counts_and_verdict [of "[hd exampleResults]" "[]"]
  have b: "failCount (report exampleResults []) = 1" "warnCount (report exampleResults []) = 2"
    using broken n by simp_all
  have d: "failCount (report (tl (tl exampleResults)) []) = 0"
    "warnCount (report (tl (tl exampleResults)) []) = 2"
    using degraded n by simp_all
  have h: "failCount (report [hd exampleResults] []) = 0"
    "warnCount (report [hd exampleResults] []) = 0"
    using healthy n by simp_all
  have "verdictLine (failCount (report exampleResults [])) (warnCount (report exampleResults [])) =
     ''  '' @ checkFail @ '' 1 error(s), 2 warning(s) found. Fix the issues above.''"
    using broken b by (simp add: s1 s2)
  moreover have "verdictLine (failCount (report (tl (tl exampleResults)) []))
       (warnCount (report (tl (tl exampleResults)) [])) =
     ''  '' @ checkWarn @ '' System OK with 2 warning(s)''"
    using degraded d by (simp add: s2)
  moreover have "verdictLine (failCount (report [hd exampleResults] []))
       (warnCount (report [hd exampleResults] [])) =
     ''  '' @ checkOK @ '' System Healthy '' @ [CHR 0xE2, CHR 0x80, CHR 0x94] @ '' All checks passed!''"
    using healthy h by simp
  ultimately show ?thesis
    using b d h by simp
qed

lemma report_fail_iff:
  "(0 < failCount (report rs bound)) = (checkFail \<in> set (map Status rs))"
proof -
  have "(0 < failCount (report rs bound)) = (filter (\<lambda>r. Status r = checkFail) rs \<noteq> [])"
    by (simp add: report_eq)
  also have "\<dots> = (\<exists>r \<in> set rs. Status r = checkFail)"
    by (simp add: filter_empty_conv)
  also have "\<dots> = (checkFail \<in> set (map Status rs))"
    by (simp add: image_iff) metis
  finally show ?thesis .
qed

text \<open>
  C1, as the code has it: the handler never signals failure. Whatever the checks
  return, \<^const>\<open>runDoctor\<close> returns to its caller and stops the process with no status
  of its own; a result with the failure glyph makes the failure count positive, which
  selects the verdict line and nothing else.
\<close>

theorem runDoctor_never_signals_failure:
  "ending (runDoctor d os v bound) = Returned \<and>
   \<not> signalsFailure (ending (runDoctor d os v bound)) \<and>
   (0 < failCount (runDoctor d os v bound)) =
     (checkFail \<in> set (map Status (collected (runDoctor d os v bound))))"
proof -
  obtain rs b where run: "runDoctor d os v bound = report rs b"
    using runDoctor_eq by blast
  have "collected (report rs b) = rs" and "ending (report rs b) = Returned"
    by (simp_all add: report_eq)
  then show ?thesis
    unfolding run using report_fail_iff [of rs b] by simp
qed

text \<open>
  The claim that the process signals failure exactly when a result has the failure
  glyph fails where nothing could be loaded: the run collects failures and returns.
\<close>

theorem runDoctor_exit_counterexample:
  "checkFail \<in> set (map Status (collected (runDoctor '':443'' unloadedOS unloadedViper []))) \<and>
   \<not> signalsFailure (ending (runDoctor '':443'' unloadedOS unloadedViper []))"
proof -
  have "map Status (checkAuthConfig unloadedViper) = [checkFail]"
    by (simp add: checkAuthConfig_def unloadedViper_def)
  then show ?thesis
    by (simp add: runDoctor_eq report_eq)
qed

section \<open>The buffer tuner\<close>

text \<open>
  C10: with a \<^verbatim>\<open>nil\<close> connection or a \<^verbatim>\<open>nil\<close> logger the tuner makes no call on the
  connection and writes no line.
\<close>

theorem tuneUDPBuffer_nil:
  "conn = None \<or> log = None \<Longrightarrow> tuneUDPBuffer conn log = ([], log)"
  by (auto simp add: tuneUDPBuffer_def split: option.splits)

theorem tuneUDPBuffer_nil_witness:
  "tuneUDPBuffer None (Some []) = ([], Some []) \<and>
   tuneUDPBuffer (Some shortfallConn) None = ([], None)"
  using tuneUDPBuffer_nil [of None "Some []"] tuneUDPBuffer_nil [of "Some shortfallConn" None]
  by simp

lemma tuneUDPBuffer_eq:
  "tuneUDPBuffer (Some c) (Some written) =
     (fst (tuneReadBuffer c) @ fst (tuneWriteBuffer c),
      Some (written @
        [\<lparr>level = InfoLevel,
          msg = ''[LibyaLink] Tuning UDP socket buffers for Libyan network conditions...'',
          zfields = []\<rparr>,
         snd (tuneReadBuffer c), snd (tuneWriteBuffer c)]))"
  by (simp add: tuneUDPBuffer_def split: prod.splits)

text \<open>
  C3, as the code has it: for each direction, a failed set call gives a warning whose
  fields name the request and the error, after the set call alone, with no granted
  value read; a granted size of
  at least the request gives an informational line ending in \<^verbatim>\<open>Optimal!\<close>; a smaller
  granted size gives a warning whose message names both sizes as \<^const>\<open>formatBytes\<close>
  renders them (whole megabytes, kilobytes or bytes) and whose fields
  \<^verbatim>\<open>requested_bytes\<close> and \<^verbatim>\<open>granted_bytes\<close> carry the two exact values.
\<close>

theorem tuneUDPBuffer_outcomes:
  "(SetReadBufferErr c = Some err \<longrightarrow>
      tuneReadBuffer c =
        ([SetReadBuffer 8388608],
         \<lparr>level = WarnLevel,
          msg = ''[LibyaLink] Failed to set UDP read buffer'',
          zfields = [IntField ''requested_bytes'' 8388608, ErrorField err]\<rparr>)) \<and>
   (SetReadBufferErr c = None \<and> getUDPReadBufferSize c \<ge> 8388608 \<longrightarrow>
      snd (tuneReadBuffer c) =
        \<lparr>level = InfoLevel,
         msg = ''[LibyaLink] UDP read buffer: requested 8MB -> granted ''
           @ formatBytes (getUDPReadBufferSize c) @ ''. Optimal!'',
         zfields = [IntField ''granted_bytes'' (getUDPReadBufferSize c)]\<rparr>) \<and>
   (SetReadBufferErr c = None \<and> getUDPReadBufferSize c < 8388608 \<longrightarrow>
      snd (tuneReadBuffer c) =
        \<lparr>level = WarnLevel,
         msg = ''[LibyaLink] Requested 8MB read buffer -> OS granted ''
           @ formatBytes (getUDPReadBufferSize c)
           @ ''. Warning: Run the tuning script to unlock full speed. See docs/libya_tuning.md'',
         zfields = [IntField ''requested_bytes'' 8388608,
                    IntField ''granted_bytes'' (getUDPReadBufferSize c)]\<rparr>) \<and>
   (SetWriteBufferErr c = Some err \<longrightarrow>
      tuneWriteBuffer c =
        ([SetWriteBuffer 8388608],
         \<lparr>level = WarnLevel,
          msg = ''[LibyaLink] Failed to set UDP write buffer'',
          zfields = [IntField ''requested_bytes'' 8388608, ErrorField err]\<rparr>)) \<and>
   (SetWriteBufferErr c = None \<and> getUDPWriteBufferSize c \<ge> 8388608 \<longrightarrow>
      snd (tuneWriteBuffer c) =
        \<lparr>level = InfoLevel,
         msg = ''[LibyaLink] UDP write buffer: requested 8MB -> granted ''
           @ formatBytes (getUDPWriteBufferSize c) @ ''. Optimal!'',
         zfields = [IntField ''granted_bytes'' (getUDPWriteBufferSize c)]\<rparr>) \<and>
   (SetWriteBufferErr c = None \<and> getUDPWriteBufferSize c < 8388608 \<longrightarrow>
      snd (tuneWriteBuffer c) =
        \<lparr>level = WarnLevel,
         msg = ''[LibyaLink] Requested 8MB write buffer -> OS granted ''
           @ formatBytes (getUDPWriteBufferSize c)
           @ ''. Warning: Run the tuning script to unlock full speed. See docs/libya_tuning.md'',
         zfields = [IntField ''requested_bytes'' 8388608,
                    IntField ''granted_bytes'' (getUDPWriteBufferSize c)]\<rparr>) \<and>
   snd (tuneUDPBuffer (Some c) (Some written)) =
     Some (written @
       [\<lparr>level = InfoLevel,
         msg = ''[LibyaLink] Tuning UDP socket buffers for Libyan network conditions...'',
         zfields = []\<rparr>,
        snd (tuneReadBuffer c), snd (tuneWriteBuffer c)])"
proof -
  have f: "formatBytes 8388608 = ''8MB''"
    by (simp add: formatBytes_def showInt_def showNat.simps digit_def)
  show ?thesis
    by (simp add: tuneUDPBuffer_eq tuneReadBuffer_def tuneWriteBuffer_def f
        libyalinkDesiredReadBuffer_def libyalinkDesiredWriteBuffer_def Let_def)
qed

theorem tuneUDPBuffer_outcomes_witness:
  "SetReadBufferErr shortfallConn = None \<and> getUDPReadBufferSize shortfallConn < 8388608 \<and>
   snd (tuneReadBuffer shortfallConn) =
     \<lparr>level = WarnLevel,
      msg = ''[LibyaLink] Requested 8MB read buffer -> OS granted 208KB. Warning: Run the tuning script to unlock full speed. See docs/libya_tuning.md'',
      zfields = [IntField ''requested_bytes'' 8388608, IntField ''granted_bytes'' 212992]\<rparr> \<and>
   SetWriteBufferErr shortfallConn = Some ''operation not permitted'' \<and>
   snd (tuneWriteBuffer shortfallConn) =
     \<lparr>level = WarnLevel, msg = ''[LibyaLink] Failed to set UDP write buffer'',
      zfields = [IntField ''requested_bytes'' 8388608, ErrorField ''operation not permitted'']\<rparr> \<and>
   SetReadBufferErr optimalConn = None \<and> getUDPReadBufferSize optimalConn \<ge> 8388608 \<and>
   snd (tuneReadBuffer optimalConn) =
     \<lparr>level = InfoLevel,
      msg = ''[LibyaLink] UDP read buffer: requested 8MB -> granted 16MB. Optimal!'',
      zfields = [IntField ''granted_bytes'' 16777216]\<rparr>"
proof -
  have g: "getUDPReadBufferSize shortfallConn = 212992" "getUDPReadBufferSize optimalConn = 16777216"
    by (simp_all add: getUDPReadBufferSize_def getSockOptRcvBuf_def shortfallConn_def optimalConn_def)
  have e: "SetReadBufferErr shortfallConn = None"
    "SetWriteBufferErr shortfallConn = Some ''operation not permitted''"
    "SetReadBufferErr optimalConn = None"
    by (simp_all add: shortfallConn_def optimalConn_def)
  have f: "formatBytes 212992 = ''208KB''" "formatBytes 16777216 = ''16MB''"
    by (simp_all add: formatBytes_def showInt_def showNat.simps digit_def)
  show ?thesis
    using tuneUDPBuffer_outcomes [of shortfallConn "''operation not permitted''" "[]"]
      tuneUDPBuffer_outcomes [of optimalConn "[]" "[]"]
    by (simp add: g e f)
qed

text \<open>
  With 8388608 requested and 212992 granted the message reads \<^verbatim>\<open>8MB\<close> and
  \<^verbatim>\<open>208KB\<close>: neither number is in the message as it was given.
\<close>

theorem tuneUDPBuffer_verbatim_counterexample:
  "level (snd (tuneReadBuffer shortfallConn)) = WarnLevel \<and>
   \<not> Contains (msg (snd (tuneReadBuffer shortfallConn))) ''8388608'' \<and>
   \<not> Contains (msg (snd (tuneReadBuffer shortfallConn))) ''212992''"
  by code_simp

section \<open>The configuration checks\<close>

text \<open>
  The exclusivity check by cases: with no configuration file named it returns nothing;
  with one, it returns exactly one result: a failure when both keys are present, a
  failure when neither is, and a pass naming the mode when exactly one is.
\<close>

lemma checkTLSACMEConflict_cases:
  "(ConfigFileUsed v = [] \<longrightarrow> checkTLSACMEConflict v = []) \<and>
   (ConfigFileUsed v \<noteq> [] \<and> IsSet v ''tls'' \<and> IsSet v ''acme'' \<longrightarrow>
      checkTLSACMEConflict v =
        [\<lparr>Name = ''TLS/ACME'', Status = checkFail,
          Message = ''Both 'tls' and 'acme' are set. You must use one or the other, not both.''\<rparr>]) \<and>
   (ConfigFileUsed v \<noteq> [] \<and> \<not> IsSet v ''tls'' \<and> \<not> IsSet v ''acme'' \<longrightarrow>
      checkTLSACMEConflict v =
        [\<lparr>Name = ''TLS/ACME'', Status = checkFail,
          Message = ''Neither 'tls' nor 'acme' is configured. One is required for the server to start.''\<rparr>]) \<and>
   (ConfigFileUsed v \<noteq> [] \<and> IsSet v ''tls'' \<and> \<not> IsSet v ''acme'' \<longrightarrow>
      checkTLSACMEConflict v =
        [\<lparr>Name = ''TLS/ACME'', Status = checkOK,
          Message = ''TLS mode: using local certificate files.''\<rparr>]) \<and>
   (ConfigFileUsed v \<noteq> [] \<and> \<not> IsSet v ''tls'' \<and> IsSet v ''acme'' \<longrightarrow>
      checkTLSACMEConflict v =
        [\<lparr>Name = ''TLS/ACME'', Status = checkOK,
          Message = ''ACME mode: using automatic certificate provisioning.''\<rparr>])"
  by (simp add: checkTLSACMEConflict_def)

text \<open>
  C4: the check skips on an empty file name, which is not the same as a configuration
  that was not loaded. With the file named on the command line and unreadable, reading
  the configuration fails, nothing is loaded, and the check, whose comment says that it
  skips when the configuration is not readable, reports that neither key is configured.
\<close>

theorem checkTLSACMEConflict_named_unreadable:
  "checkConfigReadable unreadableOS namedFileViper =
     [\<lparr>Name = ''Config File'', Status = checkFail,
       Message = ''Cannot read config file: open /etc/libyalink/config.yaml: permission denied''\<rparr>] \<and>
   \<not> IsSet namedFileViper ''tls'' \<and> \<not> IsSet namedFileViper ''acme'' \<and>
   checkTLSACMEConflict namedFileViper =
     [\<lparr>Name = ''TLS/ACME'', Status = checkFail,
       Message = ''Neither 'tls' nor 'acme' is configured. One is required for the server to start.''\<rparr>]"
  by (simp add: checkConfigReadable_def checkTLSACMEConflict_def unreadableOS_def unloadedOS_def
      namedFileViper_def unloadedViper_def)

lemma toLowerByte_idem: "toLowerByte (toLowerByte c) = toLowerByte c"
  by (simp add: toLowerByte_def Let_def)

lemma ToLower_idem: "ToLower (ToLower s) = ToLower s"
  by (simp add: ToLower_def toLowerByte_idem)

lemma ToLower_Nil_iff: "(ToLower s = []) = (s = [])"
  by (simp add: ToLower_def)

lemma ToLower_Nil: "ToLower [] = []"
  by (simp add: ToLower_def)

lemma lenMap_zero_iff: "(lenMap m = 0) = (m = [])"
  by (simp add: lenMap_def)

text \<open>
  The authentication check by cases: it fails on a missing type; for \<^verbatim>\<open>password\<close> it
  fails on an empty password, warns on a non-empty one of fewer than 8 bytes and passes
  from 8 bytes on; for \<^verbatim>\<open>userpass\<close> it fails on an empty mapping; for \<^verbatim>\<open>http\<close> and
  \<^verbatim>\<open>https\<close> it fails on an empty URL; any other type passes.
\<close>

lemma checkAuthConfig_cases:
  "(GetString v ''auth.type'' = [] \<longrightarrow> map Status (checkAuthConfig v) = [checkFail]) \<and>
   (ToLower (GetString v ''auth.type'') = ''password'' \<and> GetString v ''auth.password'' = [] \<longrightarrow>
      map Status (checkAuthConfig v) = [checkFail]) \<and>
   (ToLower (GetString v ''auth.type'') = ''password'' \<and> GetString v ''auth.password'' \<noteq> [] \<and>
    length (GetString v ''auth.password'') < 8 \<longrightarrow>
      map Status (checkAuthConfig v) = [checkWarn]) \<and>
   (ToLower (GetString v ''auth.type'') = ''password'' \<and>
    8 \<le> length (GetString v ''auth.password'') \<longrightarrow>
      map Status (checkAuthConfig v) = [checkOK]) \<and>
   (ToLower (GetString v ''auth.type'') = ''userpass'' \<and>
    GetStringMapString v ''auth.userpass'' = [] \<longrightarrow>
      map Status (checkAuthConfig v) = [checkFail]) \<and>
   ((ToLower (GetString v ''auth.type'') = ''http'' \<or>
     ToLower (GetString v ''auth.type'') = ''https'') \<and> GetString v ''auth.http.url'' = [] \<longrightarrow>
      map Status (checkAuthConfig v) = [checkFail]) \<and>
   (GetString v ''auth.type'' \<noteq> [] \<and>
    ToLower (GetString v ''auth.type'') \<notin> {''password'', ''userpass'', ''http'', ''https''} \<longrightarrow>
      checkAuthConfig v =
        [\<lparr>Name = ''Auth'', Status = checkOK,
          Message = ''Authentication type: '' @ GetString v ''auth.type''\<rparr>])"
  by (auto simp add: checkAuthConfig_def Let_def ToLower_Nil lenMap_zero_iff)

text \<open>
  C5: the password is measured by \<^verbatim>\<open>len\<close>, in bytes, while the warning it guards
  speaks of characters (\<^verbatim>\<open>< 8 chars\<close>). A password of four Arabic letters is 8 bytes
  long: it is not empty, it has fewer than 8 characters, and the check passes it
  without the warning.
\<close>

theorem checkAuthConfig_multibyte_password:
  "arabicPassword \<noteq> [] \<and> characters arabicPassword = 4 \<and> length arabicPassword = 8 \<and>
   checkAuthConfig (authViper ''password'' arabicPassword) =
     [\<lparr>Name = ''Auth'', Status = checkOK, Message = ''Password authentication configured.''\<rparr>]"
proof -
  have pw: "arabicPassword \<noteq> []" "length arabicPassword = 8"
    by (simp_all add: arabicPassword_def)
  have chars: "characters arabicPassword = 4"
    by code_simp
  have lower: "ToLower ''password'' = ''password''"
    by code_simp
  have "checkAuthConfig (authViper ''password'' arabicPassword) =
     [\<lparr>Name = ''Auth'', Status = checkOK, Message = ''Password authentication configured.''\<rparr>]"
    using pw by (simp add: checkAuthConfig_def authViper_def lower)
  with pw chars show ?thesis
    by simp
qed

text \<open>
  C9: two types that differ only in letter case get the same statuses, and a type whose
  lower-case form is one of the four known ones gets the very results of that form.
\<close>

theorem checkAuthConfig_case_insensitive:
  "(ToLower t = ToLower t' \<longrightarrow>
      map Status (checkAuthConfig (v\<lparr>GetString := (GetString v)(''auth.type'' := t)\<rparr>)) =
      map Status (checkAuthConfig (v\<lparr>GetString := (GetString v)(''auth.type'' := t')\<rparr>))) \<and>
   (ToLower t \<in> {''password'', ''userpass'', ''http'', ''https''} \<longrightarrow>
      checkAuthConfig (v\<lparr>GetString := (GetString v)(''auth.type'' := t)\<rparr>) =
      checkAuthConfig (v\<lparr>GetString := (GetString v)(''auth.type'' := ToLower t)\<rparr>))"
proof (intro conjI impI)
  assume eq: "ToLower t = ToLower t'"
  then have nil: "(t = []) = (t' = [])"
    using ToLower_Nil_iff by metis
  show "map Status (checkAuthConfig (v\<lparr>GetString := (GetString v)(''auth.type'' := t)\<rparr>)) =
      map Status (checkAuthConfig (v\<lparr>GetString := (GetString v)(''auth.type'' := t')\<rparr>))"
    using eq nil by (simp add: checkAuthConfig_def Let_def)
next
  assume known: "ToLower t \<in> {''password'', ''userpass'', ''http'', ''https''}"
  then have "t \<noteq> []" "ToLower t \<noteq> []"
    by (auto simp add: ToLower_def)
  then show "checkAuthConfig (v\<lparr>GetString := (GetString v)(''auth.type'' := t)\<rparr>) =
      checkAuthConfig (v\<lparr>GetString := (GetString v)(''auth.type'' := ToLower t)\<rparr>)"
    using known by (auto simp add: checkAuthConfig_def Let_def ToLower_idem)
qed

theorem checkAuthConfig_case_insensitive_witness:
  "ToLower ''PASSWORD'' = ToLower ''password'' \<and>
   ToLower ''PASSWORD'' \<in> {''password'', ''userpass'', ''http'', ''https''} \<and>
   map Status (checkAuthConfig
     ((authViper [] ''short1'')\<lparr>GetString :=
        (GetString (authViper [] ''short1''))(''auth.type'' := ''PASSWORD'')\<rparr>)) = [checkWarn] \<and>
   checkAuthConfig
     ((authViper [] ''short1'')\<lparr>GetString :=
        (GetString (authViper [] ''short1''))(''auth.type'' := ''PASSWORD'')\<rparr>) =
   checkAuthConfig
     ((authViper [] ''short1'')\<lparr>GetString :=
        (GetString (authViper [] ''short1''))(''auth.type'' := ''password'')\<rparr>)"
proof -
  have l: "ToLower ''PASSWORD'' = ''password''" "ToLower ''password'' = ''password''"
    by code_simp+
  have lower: "map Status (checkAuthConfig
     ((authViper [] ''short1'')\<lparr>GetString :=
        (GetString (authViper [] ''short1''))(''auth.type'' := ''password'')\<rparr>)) = [checkWarn]"
    by (simp add: checkAuthConfig_def authViper_def l)
  show ?thesis
    using checkAuthConfig_case_insensitive
      [of "''PASSWORD''" "''password''" "authViper [] ''short1''"] lower
    by (simp add: l)
qed

text \<open>
  C7, as the code has it: when the configuration could not be loaded and the lookups
  find neither the \<^verbatim>\<open>tls\<close> key nor an authentication type, every check still runs and
  the run returns with the results of all of them in order; the certificate check
  returns no result, the exclusivity check returns none when no configuration file is
  named, and the authentication check returns one failure of its own for the missing
  type.
\<close>

theorem unloaded_config_checks:
  assumes "ReadInConfig os = Some err" and "\<not> IsSet v ''tls''"
    and "GetString v ''auth.type'' = []"
  shows "checkTLSFiles os v = [] \<and>
    (ConfigFileUsed v = [] \<longrightarrow> checkTLSACMEConflict v = []) \<and>
    checkAuthConfig v =
      [\<lparr>Name = ''Auth'', Status = checkFail,
        Message = ''No auth.type configured. Server requires authentication.''\<rparr>] \<and>
    collected (runDoctor d os v bound) =
      \<lparr>Name = ''Config File'', Status = checkFail,
       Message = ''Cannot read config file: '' @ err\<rparr>
        # checkTLSACMEConflict v @ fst (checkPortAvailability d os v bound) @ checkUDPBuffers os
        @ [\<lparr>Name = ''Auth'', Status = checkFail,
            Message = ''No auth.type configured. Server requires authentication.''\<rparr>] \<and>
    ending (runDoctor d os v bound) = Returned"
proof -
  have files: "checkTLSFiles os v = []"
    using assms(2) by (simp add: checkTLSFiles_def)
  have auth: "checkAuthConfig v =
      [\<lparr>Name = ''Auth'', Status = checkFail,
        Message = ''No auth.type configured. Server requires authentication.''\<rparr>]"
    using assms(3) by (simp add: checkAuthConfig_def)
  have config: "checkConfigReadable os v =
      [\<lparr>Name = ''Config File'', Status = checkFail,
        Message = ''Cannot read config file: '' @ err\<rparr>]"
    using assms(1) by (simp add: checkConfigReadable_def)
  have skip: "ConfigFileUsed v = [] \<longrightarrow> checkTLSACMEConflict v = []"
    by (simp add: checkTLSACMEConflict_def)
  have run: "collected (runDoctor d os v bound) =
      checkConfigReadable os v @ checkTLSACMEConflict v @ checkTLSFiles os v
        @ fst (checkPortAvailability d os v bound) @ checkUDPBuffers os @ checkAuthConfig v"
    and ret: "ending (runDoctor d os v bound) = Returned"
    by (simp_all add: runDoctor_eq report_eq)
  from run show ?thesis
    unfolding files auth config using skip ret by simp
qed

theorem unloaded_config_checks_witness:
  "ReadInConfig unloadedOS = Some ''Config File Not Found'' \<and> \<not> IsSet unloadedViper ''tls'' \<and>
   GetString unloadedViper ''auth.type'' = [] \<and> ConfigFileUsed unloadedViper = [] \<and>
   checkTLSFiles unloadedOS unloadedViper = [] \<and> checkTLSACMEConflict unloadedViper = [] \<and>
   map Status (checkAuthConfig unloadedViper) = [checkFail] \<and>
   map Status (collected (runDoctor '':443'' unloadedOS unloadedViper [])) =
     [checkFail, checkOK, checkWarn, checkWarn, checkFail] \<and>
   ending (runDoctor '':443'' unloadedOS unloadedViper []) = Returned"
proof -
  have h: "ReadInConfig unloadedOS = Some ''Config File Not Found''"
    "\<not> IsSet unloadedViper ''tls''" "GetString unloadedViper ''auth.type'' = []"
    and nofile: "ConfigFileUsed unloadedViper = []"
    by (simp_all add: unloadedOS_def unloadedViper_def)
  have port: "map Status (fst (checkPortAvailability '':443'' unloadedOS unloadedViper [])) = [checkOK]"
    by (simp add: checkPortAvailability_def ListenUDP_def unloadedOS_def unloadedViper_def Let_def)
  have "Sscanf_d (TrimSpace ''212992'') = 212992"
    by code_simp
  then have buffers: "map Status (checkUDPBuffers unloadedOS) = [checkWarn, checkWarn]"
    by (simp add: checkUDPBuffers_def checkBufferValue_def unloadedOS_def)
  from unloaded_config_checks [OF h, of "'':443''" "[]"] h nofile port buffers show ?thesis
    by simp
qed

text \<open>
  So not every check that reads the configuration is silent when it could not be
  loaded.
\<close>

theorem unloaded_config_counterexample:
  "ReadInConfig unloadedOS \<noteq> None \<and> ConfigFileUsed unloadedViper = [] \<and>
   checkAuthConfig unloadedViper =
     [\<lparr>Name = ''Auth'', Status = checkFail,
       Message = ''No auth.type configured. Server requires authentication.''\<rparr>]"
  by (simp add: unloadedOS_def unloadedViper_def checkAuthConfig_def)

section \<open>The certificate files\<close>

text \<open>
  C6: the pair is loaded whenever both paths are non-empty, whatever the two file
  checks found. Here the certificate file is missing, its check fails, and a pair
  result is produced all the same.
\<close>

theorem checkTLSFiles_pair_after_failed_file:
  "checkTLSFiles missingCertOS tlsViper =
     [\<lparr>Name = ''TLS Cert'', Status = checkFail,
       Message = ''File not found: /etc/libyalink/server.crt''\<rparr>,
      \<lparr>Name = ''TLS Key'', Status = checkOK,
       Message = ''Readable (1704 bytes): /etc/libyalink/server.key''\<rparr>,
      \<lparr>Name = ''TLS Pair'', Status = checkFail,
       Message = ''Certificate/Key pair is invalid: open /etc/libyalink/server.crt: no such file or directory''\<rparr>]"
  by code_simp

section \<open>The port check\<close>

text \<open>On every path the check leaves the list of bound sockets as it found it.\<close>

lemma checkPortAvailability_bound:
  "snd (checkPortAvailability d os v bound) = bound"
  by (auto simp add: checkPortAvailability_def ListenUDP_def Close_def Let_def
      split: sum.splits option.splits prod.splits if_splits)

text \<open>
  C8: when the address resolves and the bind succeeds, the check reports the pass with
  the endpoint released: the network is as before, a second run gives the same result,
  and the caller's own bind of that endpoint succeeds.
\<close>

theorem checkPortAvailability_releases:
  assumes "ResolveUDPAddr os (if GetString v ''listen'' = [] then d else GetString v ''listen'')
      = Inr udpAddr"
    and "fst (ListenUDP os bound udpAddr) = Inr conn"
  shows "checkPortAvailability d os v bound =
      ([\<lparr>Name = ''UDP Port'', Status = checkOK,
         Message = ''UDP '' @ (if GetString v ''listen'' = [] then d else GetString v ''listen'')
           @ '' is available.''\<rparr>], bound) \<and>
    checkPortAvailability d os v (snd (checkPortAvailability d os v bound)) =
      checkPortAvailability d os v bound \<and>
    fst (ListenUDP os (snd (checkPortAvailability d os v bound)) udpAddr) = Inr conn"
proof -
  from assms(2) have bind: "ListenUDP os bound udpAddr = (Inr udpAddr, udpAddr # bound)"
    by (auto simp add: ListenUDP_def split: if_splits option.splits)
  have "Close udpAddr (udpAddr # bound) = bound"
    by (simp add: Close_def)
  with assms(1) bind have first: "checkPortAvailability d os v bound =
      ([\<lparr>Name = ''UDP Port'', Status = checkOK,
         Message = ''UDP '' @ (if GetString v ''listen'' = [] then d else GetString v ''listen'')
           @ '' is available.''\<rparr>], bound)"
    by (simp add: checkPortAvailability_def Let_def)
  then show ?thesis
    using assms(2) by simp
qed

theorem checkPortAvailability_releases_witness:
  "ResolveUDPAddr unloadedOS
     (if GetString unloadedViper ''listen'' = [] then '':443'' else GetString unloadedViper ''listen'')
     = Inr ''0.0.0.0:443'' \<and>
   fst (ListenUDP unloadedOS [''0.0.0.0:8080''] ''0.0.0.0:443'') = Inr ''0.0.0.0:443'' \<and>
   checkPortAvailability '':443'' unloadedOS unloadedViper [''0.0.0.0:8080''] =
     ([\<lparr>Name = ''UDP Port'', Status = checkOK, Message = ''UDP :443 is available.''\<rparr>],
      [''0.0.0.0:8080'']) \<and>
   checkPortAvailability '':443'' unloadedOS unloadedViper
       (snd (checkPortAvailability '':443'' unloadedOS unloadedViper [''0.0.0.0:8080''])) =
     checkPortAvailability '':443'' unloadedOS unloadedViper [''0.0.0.0:8080'']"
proof -
  have r: "ResolveUDPAddr unloadedOS
     (if GetString unloadedViper ''listen'' = [] then '':443'' else GetString unloadedViper ''listen'')
     = Inr ''0.0.0.0:443''"
    by (simp add: unloadedOS_def unloadedViper_def)
  have b: "fst (ListenUDP unloadedOS [''0.0.0.0:8080''] ''0.0.0.0:443'') = Inr ''0.0.0.0:443''"
    by (simp add: ListenUDP_def unloadedOS_def)
  have g: "GetString unloadedViper ''listen'' = []"
    by (simp add: unloadedViper_def)
  from checkPortAvailability_releases [OF r b] r b g show ?thesis
    by simp
qed

end
